theory Spec2Isabelle
  imports Main "HOL-Library.Char_ord" "HOL-Library.List_Lexorder"
begin

section \<open>Errors\<close>

text \<open>
  The Go code reports failure through \<^verbatim>\<open>error\<close> values: the package sentinel
  \<^verbatim>\<open>ErrRecordNotFound\<close>, the driver sentinel \<^verbatim>\<open>pgx.ErrNoRows\<close>, any other
  driver failure, and \<^verbatim>\<open>fmt.Errorf("msg: %w", err)\<close>, which wraps an error
  under a message. \<^verbatim>\<open>errors.Is\<close> follows the chain of wrapped errors.
  \<open>InvalidSortField\<close> and \<open>Conflict\<close> are the error kinds of the two operations
  whose code is not among the sources (the sort resolution and the vote ledger).
\<close>

datatype error =
    ErrRecordNotFound | ErrNoRows | DriverError | Wrapped string error
  | InvalidSortField | Conflict

fun errors_Is :: "error \<Rightarrow> error \<Rightarrow> bool" where
  "errors_Is (Wrapped m e) t = (Wrapped m e = t \<or> errors_Is e t)"
| "errors_Is e t = (e = t)"

text \<open>
  The test a caller applies to a result: \<^verbatim>\<open>errors.Is(err, ErrRecordNotFound)\<close>.
\<close>

definition is_NotFound :: "error + 'a \<Rightarrow> bool" where
  "is_NotFound r = (case r of Inl err \<Rightarrow> errors_Is err ErrRecordNotFound | Inr v \<Rightarrow> False)"

section \<open>Data model\<close>

text \<open>
  \<^verbatim>\<open>time.Time\<close> is a point on the time line, here an integer; a poll identifier is the
  Go \<^verbatim>\<open>string\<close> the code passes around. \<^verbatim>\<open>PollOption\<close> is declared in a file of the
  package that uses \<^verbatim>\<open>ID\<close>, \<^verbatim>\<open>Value\<close>, \<^verbatim>\<open>Position\<close> and \<^verbatim>\<open>VoteCount\<close>.
\<close>

type_synonym time = int

record PollOption =
  opt_ID :: string
  opt_Value :: string
  opt_Position :: int
  opt_VoteCount :: int

record Poll =
  ID :: string
  Question :: string
  Description :: string
  Options :: "PollOption list"
  CreatedAt :: time
  UpdatedAt :: time
  ExpiresAt :: time
  ResultsVisibility :: string
  IsPrivate :: bool
  Token :: string

text \<open>The zero values \<^verbatim>\<open>var option PollOption\<close> and \<^verbatim>\<open>var poll Poll\<close>.\<close>

definition PollOption0 :: PollOption where
  "PollOption0 = \<lparr>opt_ID = [], opt_Value = [], opt_Position = 0, opt_VoteCount = 0\<rparr>"

definition Poll0 :: Poll where
  "Poll0 = \<lparr>ID = [], Question = [], Description = [], Options = [], CreatedAt = 0,
     UpdatedAt = 0, ExpiresAt = 0, ResultsVisibility = [], IsPrivate = False, Token = []\<rparr>"

subsection \<open>The store\<close>

text \<open>
  The four tables the queries name, each a list of rows in storage order. A query
  without \<^verbatim>\<open>ORDER BY\<close> returns rows in that order.
\<close>

record polls_row =
  p_id :: string
  p_question :: string
  p_description :: string
  p_created_at :: time
  p_updated_at :: time
  p_expires_at :: time
  p_results_visibility :: string
  p_is_private :: bool

record options_row =
  po_id :: string
  po_value :: string
  po_poll_id :: string
  po_position :: int
  po_vote_count :: int

record tokens_row =
  t_hash :: string
  t_poll_id :: string

record ips_row =
  ip_id :: nat
  ip_ip :: string
  ip_poll_id :: string

record db =
  polls :: "polls_row list"
  poll_options :: "options_row list"
  tokens :: "tokens_row list"
  ips :: "ips_row list"

subsection \<open>What a call does not decide\<close>

text \<open>
  The places where a call can fail for reasons outside the Go code (connectivity,
  timeout, a row that does not scan): one per error return of the source. A failed
  statement leaves its table as it was; a scan that fails does so on the first row.
\<close>

datatype site =
    InsertPollQuery | InsertOptionsQuery | InsertOptionsScan | InsertTokenExec
  | GetQuery | GetScan | UpdateQuery
  | GetAllQuery | GetAllScan | GetAllUnmarshal | GetAllRows
  | CheckTokenQuery | GetIPsQuery | GetIPsScan | RecordVoteExec

text \<open>
  The behaviour of the database server, the clock and the library during one call:
  \<^item> \<open>id_syntax\<close>: the strings the type of column \<^verbatim>\<open>polls.id\<close> accepts as input (the
    table is declared in a migration that is not among the sources; a parameter
    of an identifier the column type rejects makes the statement fail);
  \<^item> \<open>ts_match q s\<close>: \<^verbatim>\<open>to_tsvector('simple', q) @@ plainto_tsquery('simple', s)\<close>;
  \<^item> \<open>sha256\<close>: \<^verbatim>\<open>sha256.Sum256\<close>;
  \<^item> \<open>fails\<close>: the sites that fail during this call;
  \<^item> \<open>NOW\<close>: the value of \<^verbatim>\<open>NOW()\<close>;
  \<^item> \<open>gen_poll_id\<close>, \<open>gen_option_id\<close>: the identifiers the column defaults generate.
\<close>

record env =
  id_syntax :: "string \<Rightarrow> bool"
  ts_match :: "string \<Rightarrow> string \<Rightarrow> bool"
  sha256 :: "string \<Rightarrow> string"
  fails :: "site \<Rightarrow> bool"
  NOW :: time
  gen_poll_id :: string
  gen_option_id :: "nat \<Rightarrow> string"

section \<open>\<^verbatim>\<open>PollModel.Get\<close>\<close>

text \<open>
  The rows of \<^verbatim>\<open>polls p JOIN poll_options po ON po.poll_id = p.id WHERE p.id = $1\<close>.
\<close>

definition get_rows :: "db \<Rightarrow> string \<Rightarrow> (polls_row \<times> options_row) list" where
  "get_rows d i =
     [(p, po). p \<leftarrow> polls d, po \<leftarrow> poll_options d, po_poll_id po = p_id p \<and> p_id p = i]"

text \<open>
  An option as both read operations build it: a zero \<^verbatim>\<open>PollOption\<close> whose \<^verbatim>\<open>ID\<close>,
  \<^verbatim>\<open>Value\<close> and \<^verbatim>\<open>Position\<close> are filled from the columns \<^verbatim>\<open>po.id\<close>, \<^verbatim>\<open>po.value\<close>
  and \<^verbatim>\<open>po.position\<close>, the only option columns either query selects.
\<close>

definition scan_option :: "options_row \<Rightarrow> PollOption" where
  "scan_option po =
     PollOption0\<lparr>opt_ID := po_id po, opt_Value := po_value po, opt_Position := po_position po\<rparr>"

text \<open>
  The loop over \<^verbatim>\<open>rows.Next()\<close>: the first row fills the poll's fields, every row
  appends its option.
\<close>

fun get_loop ::
  "(polls_row \<times> options_row) list \<Rightarrow> bool \<Rightarrow> Poll \<Rightarrow> PollOption list \<Rightarrow> Poll \<times> PollOption list"
where
  "get_loop [] first poll options = (poll, options)"
| "get_loop ((p, po) # rows) first poll options =
     (let option = scan_option po;
          poll' = (if first
                   then poll\<lparr>ID := p_id p, Question := p_question p,
                          Description := p_description p, CreatedAt := p_created_at p,
                          UpdatedAt := p_updated_at p, ExpiresAt := p_expires_at p,
                          ResultsVisibility := p_results_visibility p,
                          IsPrivate := p_is_private p\<rparr>
                   else poll)
      in get_loop rows False poll' (options @ [option]))"

definition Get :: "env \<Rightarrow> db \<Rightarrow> string \<Rightarrow> error + Poll" where
  "Get e d i =
     (if i = [] then Inl ErrRecordNotFound
      else if \<not> id_syntax e i \<or> fails e GetQuery then Inl (Wrapped ''get poll'' DriverError)
      else let rows = get_rows d i in
        if rows \<noteq> [] \<and> fails e GetScan then Inl (Wrapped ''get poll - scan'' DriverError)
        else let (poll, options) = get_loop rows True Poll0 [] in
          if length options = 0 then Inl ErrRecordNotFound
          else Inr (poll\<lparr>Options := options\<rparr>))"

section \<open>\<^verbatim>\<open>PollModel.Update\<close>\<close>

text \<open>
  One \<^verbatim>\<open>UPDATE polls SET question, description, expires_at, updated_at = NOW() WHERE
  id = $4 RETURNING updated_at\<close>, whose row is scanned into \<^verbatim>\<open>poll.UpdatedAt\<close>. The
  result of \<^verbatim>\<open>QueryRow(...).Scan\<close> is returned as it is: \<^verbatim>\<open>pgx.ErrNoRows\<close> when the
  statement returns no row. The model returns the error (\<open>None\<close> for \<^verbatim>\<open>nil\<close>), the
  poll value the pointer refers to afterwards, and the store.
\<close>

definition update_row :: "env \<Rightarrow> Poll \<Rightarrow> polls_row \<Rightarrow> polls_row" where
  "update_row e poll r =
     (if p_id r = ID poll
      then r\<lparr>p_question := Question poll, p_description := Description poll,
             p_expires_at := ExpiresAt poll, p_updated_at := NOW e\<rparr>
      else r)"

definition Update :: "env \<Rightarrow> db \<Rightarrow> Poll \<Rightarrow> error option \<times> Poll \<times> db" where
  "Update e d poll =
     (if \<not> id_syntax e (ID poll) \<or> fails e UpdateQuery then (Some DriverError, poll, d)
      else if [r \<leftarrow> polls d. p_id r = ID poll] = [] then (Some ErrNoRows, poll, d)
      else (None, poll\<lparr>UpdatedAt := NOW e\<rparr>, d\<lparr>polls := map (update_row e poll) (polls d)\<rparr>))"

section \<open>\<^verbatim>\<open>PollModel.CheckToken\<close>\<close>

definition CheckToken :: "env \<Rightarrow> db \<Rightarrow> string \<Rightarrow> error + string" where
  "CheckToken e d tokenPlaintext =
     (let tokenHash = sha256 e tokenPlaintext in
      if fails e CheckTokenQuery then Inl (Wrapped ''check token'' DriverError)
      else case [r \<leftarrow> tokens d. t_hash r = tokenHash] of
             [] \<Rightarrow> Inl ErrRecordNotFound
           | r # _ \<Rightarrow> Inr (t_poll_id r))"

section \<open>\<^verbatim>\<open>PollModel.Insert\<close>\<close>

text \<open>
  Three statements, each sent on its own to the pool (no transaction is opened):
  the poll row, then all option rows in one \<^verbatim>\<open>INSERT ... VALUES (...), (...) RETURNING
  id\<close>, then the token row. A statement that fails leaves its table as it was; the
  statements before it have taken effect. With no option the second statement reads
  \<^verbatim>\<open>... VALUES  RETURNING id;\<close>, which the server rejects. \<^verbatim>\<open>polls.id\<close> is a key (the
  \<^verbatim>\<open>ips\<close> migration references it), so a generated identifier that is taken makes the
  first statement fail. The model returns the error, the poll value the pointer
  refers to afterwards, and the store.
\<close>

text \<open>
  The row the first statement writes: the five values of the argument, and the
  identifier and the two times the statement returns, which the table's defaults
  supply (the creation and update time are taken to be \<^verbatim>\<open>NOW()\<close>).
\<close>

definition new_poll_row :: "env \<Rightarrow> Poll \<Rightarrow> polls_row" where
  "new_poll_row e poll =
     \<lparr>p_id = gen_poll_id e, p_question = Question poll, p_description = Description poll,
      p_created_at = NOW e, p_updated_at = NOW e, p_expires_at = ExpiresAt poll,
      p_results_visibility = ResultsVisibility poll, p_is_private = IsPrivate poll\<rparr>"

fun new_option_rows :: "env \<Rightarrow> string \<Rightarrow> nat \<Rightarrow> PollOption list \<Rightarrow> options_row list" where
  "new_option_rows e pid k [] = []"
| "new_option_rows e pid k (opt # opts) =
     \<lparr>po_id = gen_option_id e k, po_value = opt_Value opt, po_poll_id = pid,
      po_position = opt_Position opt, po_vote_count = opt_VoteCount opt\<rparr>
     # new_option_rows e pid (Suc k) opts"

text \<open>The loop that scans the returned identifiers into \<^verbatim>\<open>poll.Options[optionIndex].ID\<close>.\<close>

fun scan_option_ids :: "PollOption list \<Rightarrow> options_row list \<Rightarrow> PollOption list" where
  "scan_option_ids (opt # opts) (r # rs) = opt\<lparr>opt_ID := po_id r\<rparr> # scan_option_ids opts rs"
| "scan_option_ids opts rs = opts"

definition Insert :: "env \<Rightarrow> db \<Rightarrow> Poll \<Rightarrow> string \<Rightarrow> error option \<times> Poll \<times> db" where
  "Insert e d poll tokenHash =
     (if fails e InsertPollQuery \<or> [r \<leftarrow> polls d. p_id r = gen_poll_id e] \<noteq> []
      then (Some (Wrapped ''insert poll'' DriverError), poll, d)
      else
        let row = new_poll_row e poll;
            d1 = d\<lparr>polls := polls d @ [row]\<rparr>;
            poll1 = poll\<lparr>ID := p_id row, CreatedAt := p_created_at row,
                      UpdatedAt := p_updated_at row\<rparr>
        in
        if Options poll = [] \<or> fails e InsertOptionsQuery
        then (Some (Wrapped ''insert poll options'' DriverError), poll1, d1)
        else
          let rows = new_option_rows e (ID poll1) 0 (Options poll1);
              d2 = d1\<lparr>poll_options := poll_options d1 @ rows\<rparr>
          in
          if fails e InsertOptionsScan
          then (Some (Wrapped ''scan option id'' DriverError), poll1, d2)
          else
            let poll2 = poll1\<lparr>Options := scan_option_ids (Options poll1) rows\<rparr> in
            if fails e InsertTokenExec then (Some DriverError, poll2, d2)
            else (None, poll2,
                  d2\<lparr>tokens := tokens d2 @ [\<lparr>t_hash = tokenHash, t_poll_id = ID poll2\<rparr>]\<rparr>))"

section \<open>\<^verbatim>\<open>PollModel.GetAll\<close>\<close>

subsection \<open>Filters and metadata\<close>

text \<open>
  \<^verbatim>\<open>Filters\<close>, its methods and \<^verbatim>\<open>calculateMetadata\<close> are used by \<^verbatim>\<open>GetAll\<close> and declared
  in a file that is not among the sources.
\<close>

record Filters =
  Page :: int
  PageSize :: int
  Sort :: string
  SortSafelist :: "string list"

record Metadata =
  CurrentPage :: int
  Meta_PageSize :: int
  FirstPage :: int
  LastPage :: int
  TotalRecords :: int

definition strip_marker :: "string \<Rightarrow> string" where
  "strip_marker s = (if s \<noteq> [] \<and> hd s = CHR ''-'' then tl s else s)"

text \<open>
  Modelled from the spec: \<^verbatim>\<open>sortColumn\<close> and \<^verbatim>\<open>sortDirection\<close> are missing. The spec's
  \<^verbatim>\<open>resolveSort\<close> fails with \<^verbatim>\<open>InvalidSortField\<close> if the requested expression, stripped
  of a leading direction marker, is absent from the safelist; the direction is
  descending if the marker is present, ascending otherwise.
\<close>

definition sortColumn :: "Filters \<Rightarrow> string option" where
  "sortColumn f =
     (if strip_marker (Sort f) \<in> set (SortSafelist f) then Some (strip_marker (Sort f))
      else None)"

definition sortDirection :: "Filters \<Rightarrow> string" where
  "sortDirection f = (if Sort f \<noteq> [] \<and> hd (Sort f) = CHR ''-'' then ''DESC'' else ''ASC'')"

text \<open>
  Modelled from the spec: \<^verbatim>\<open>limit\<close> and \<^verbatim>\<open>offset\<close> are missing; the spec calls them
  standard page arithmetic.
\<close>

definition limit :: "Filters \<Rightarrow> int" where
  "limit f = PageSize f"

definition offset :: "Filters \<Rightarrow> int" where
  "offset f = (Page f - 1) * PageSize f"

text \<open>
  Modelled from the spec: \<^verbatim>\<open>calculateMetadata\<close> is missing. The spec's \<^verbatim>\<open>buildMetadata\<close>
  returns the zero value when the total is 0 and otherwise the page, the page size,
  first page 1, last page \<open>\<lceil>total / pageSize\<rceil>\<close> and the total.
\<close>

definition calculateMetadata :: "int \<Rightarrow> int \<Rightarrow> int \<Rightarrow> Metadata" where
  "calculateMetadata totalRecords page pageSize =
     (if totalRecords = 0
      then \<lparr>CurrentPage = 0, Meta_PageSize = 0, FirstPage = 0, LastPage = 0, TotalRecords = 0\<rparr>
      else \<lparr>CurrentPage = page, Meta_PageSize = pageSize, FirstPage = 1,
            LastPage = - ((- totalRecords) div pageSize), TotalRecords = totalRecords\<rparr>)"

subsection \<open>The query\<close>

text \<open>
  The groups of \<^verbatim>\<open>polls p JOIN poll_options po ON po.poll_id = p.id WHERE (question
  matches $1 OR $1 = '') AND p.is_private = false GROUP BY p.id\<close>: one per poll row
  that passes the filter and joins at least one option row, with its option rows
  aggregated (\<^verbatim>\<open>p.id\<close> is a key, so a group is a poll row).
\<close>

definition getall_where :: "env \<Rightarrow> string \<Rightarrow> polls_row \<Rightarrow> bool" where
  "getall_where e search p =
     ((ts_match e (p_question p) search \<or> search = []) \<and> p_is_private p = False)"

definition getall_groups :: "env \<Rightarrow> db \<Rightarrow> string \<Rightarrow> (polls_row \<times> options_row list) list" where
  "getall_groups e d search =
     [(p, pos). p \<leftarrow> polls d, pos \<leftarrow> [[po \<leftarrow> poll_options d. po_poll_id po = p_id p]],
                pos \<noteq> [] \<and> getall_where e search p]"

text \<open>
  \<^verbatim>\<open>ORDER BY <column> <direction>, id ASC\<close>. The order of a column is given for the
  columns of \<^verbatim>\<open>polls\<close> the query selects; any other name makes the statement fail.
\<close>

definition column_le :: "string \<Rightarrow> (polls_row \<Rightarrow> polls_row \<Rightarrow> bool) option" where
  "column_le c =
     (if c = ''id'' then Some (\<lambda>a b. p_id a \<le> p_id b)
      else if c = ''question'' then Some (\<lambda>a b. p_question a \<le> p_question b)
      else if c = ''description'' then Some (\<lambda>a b. p_description a \<le> p_description b)
      else if c = ''created_at'' then Some (\<lambda>a b. p_created_at a \<le> p_created_at b)
      else if c = ''updated_at'' then Some (\<lambda>a b. p_updated_at a \<le> p_updated_at b)
      else if c = ''expires_at'' then Some (\<lambda>a b. p_expires_at a \<le> p_expires_at b)
      else if c = ''results_visibility''
        then Some (\<lambda>a b. p_results_visibility a \<le> p_results_visibility b)
      else None)"

definition row_before ::
  "(polls_row \<Rightarrow> polls_row \<Rightarrow> bool) \<Rightarrow> string \<Rightarrow>
   polls_row \<times> options_row list \<Rightarrow> polls_row \<times> options_row list \<Rightarrow> bool"
where
  "row_before le dir a b =
     (if le (fst a) (fst b) \<and> le (fst b) (fst a) then p_id (fst a) \<le> p_id (fst b)
      else if dir = ''DESC'' then le (fst b) (fst a)
      else le (fst a) (fst b))"

fun insort_by :: "('a \<Rightarrow> 'a \<Rightarrow> bool) \<Rightarrow> 'a \<Rightarrow> 'a list \<Rightarrow> 'a list" where
  "insort_by le x [] = [x]"
| "insort_by le x (y # ys) = (if le x y then x # y # ys else y # insort_by le x ys)"

definition sort_by :: "('a \<Rightarrow> 'a \<Rightarrow> bool) \<Rightarrow> 'a list \<Rightarrow> 'a list" where
  "sort_by le xs = foldr (insort_by le) xs []"

text \<open>
  One iteration of the loop: a zero \<^verbatim>\<open>Poll\<close> whose fields are scanned from the selected
  columns (\<^verbatim>\<open>is_private\<close> is not among them) and whose options are unmarshalled from
  the aggregated objects of \<^verbatim>\<open>id\<close>, \<^verbatim>\<open>value\<close> and \<^verbatim>\<open>position\<close>.
\<close>

fun getall_scan :: "polls_row \<times> options_row list \<Rightarrow> Poll" where
  "getall_scan (p, pos) =
     Poll0\<lparr>ID := p_id p, Question := p_question p, Description := p_description p,
           CreatedAt := p_created_at p, UpdatedAt := p_updated_at p,
           ExpiresAt := p_expires_at p, ResultsVisibility := p_results_visibility p,
           Options := map scan_option pos\<rparr>"

text \<open>
  \<^verbatim>\<open>count(*) OVER()\<close> is the number of groups before \<^verbatim>\<open>LIMIT\<close> and \<^verbatim>\<open>OFFSET\<close>; it is
  scanned from each returned row, so \<^verbatim>\<open>totalRecords\<close> stays 0 when the page is empty.
  A negative \<^verbatim>\<open>LIMIT\<close> or \<^verbatim>\<open>OFFSET\<close> fails when the statement runs.
\<close>

definition GetAll :: "env \<Rightarrow> db \<Rightarrow> string \<Rightarrow> Filters \<Rightarrow> error + Poll list \<times> Metadata" where
  "GetAll e d search filters =
     (case sortColumn filters of
        None \<Rightarrow> Inl InvalidSortField
      | Some col \<Rightarrow>
          (case column_le col of
             None \<Rightarrow> Inl (Wrapped ''get all polls'' DriverError)
           | Some le \<Rightarrow>
               if fails e GetAllQuery then Inl (Wrapped ''get all polls'' DriverError)
               else if limit filters < 0 \<or> offset filters < 0 \<or> fails e GetAllRows
               then Inl (Wrapped ''get polls'' DriverError)
               else
                 let ordered = sort_by (row_before le (sortDirection filters))
                                 (getall_groups e d search);
                     page = take (nat (limit filters)) (drop (nat (offset filters)) ordered)
                 in
                 if page \<noteq> [] \<and> fails e GetAllScan
                 then Inl (Wrapped ''get polls - scan'' DriverError)
                 else if page \<noteq> [] \<and> fails e GetAllUnmarshal
                 then Inl (Wrapped ''get polls - unmarshal options'' DriverError)
                 else
                   let totalRecords = (if page = [] then 0 else int (length ordered)) in
                   Inr (map getall_scan page,
                        calculateMetadata totalRecords (Page filters) (PageSize filters))))"

section \<open>The vote ledger\<close>

text \<open>
  The table of migration \<^verbatim>\<open>00004_ips.sql\<close>: \<^verbatim>\<open>id bigserial PRIMARY KEY\<close>, \<^verbatim>\<open>ip inet UNIQUE
  NOT NULL\<close>, \<^verbatim>\<open>poll_id bigserial REFERENCES polls (id) ON DELETE CASCADE\<close>. An insert of
  \<open>(ip, poll_id)\<close> violates the unique constraint when a row with that \<^verbatim>\<open>ip\<close> exists,
  whatever its poll, and the foreign key when no poll has that identifier.
\<close>

datatype violation = UniqueViolation | ForeignKeyViolation

definition insert_ips :: "db \<Rightarrow> string \<Rightarrow> string \<Rightarrow> violation + db" where
  "insert_ips d ip pollID =
     (if [r \<leftarrow> ips d. ip_ip r = ip] \<noteq> [] then Inl UniqueViolation
      else if [p \<leftarrow> polls d. p_id p = pollID] = [] then Inl ForeignKeyViolation
      else Inr (d\<lparr>ips := ips d @
             [\<lparr>ip_id = Suc (foldr max (map ip_id (ips d)) 0), ip_ip = ip, ip_poll_id = pollID\<rparr>]\<rparr>))"

text \<open>
  Modelled from the spec: \<^verbatim>\<open>RecordVote\<close>, the function that inserts into \<^verbatim>\<open>ips\<close>, is
  missing. The spec's \<^verbatim>\<open>RecordVote(pollID, address)\<close> records the pair and fails with
  \<^verbatim>\<open>Conflict\<close> on a violation of the unique constraint; any other failure is a storage
  error.
\<close>

definition RecordVote :: "env \<Rightarrow> db \<Rightarrow> string \<Rightarrow> string \<Rightarrow> error option \<times> db" where
  "RecordVote e d pollID address =
     (if \<not> id_syntax e pollID \<or> fails e RecordVoteExec then (Some DriverError, d)
      else case insert_ips d address pollID of
             Inl UniqueViolation \<Rightarrow> (Some Conflict, d)
           | Inl ForeignKeyViolation \<Rightarrow> (Some DriverError, d)
           | Inr d' \<Rightarrow> (None, d'))"

text \<open>
  \<^verbatim>\<open>PollModel.GetVotedIPs\<close>: the addresses recorded for one poll, which \<^verbatim>\<open>checkIP\<close>
  searches to decide whether an address has voted on that poll.
\<close>

definition GetVotedIPs :: "env \<Rightarrow> db \<Rightarrow> string \<Rightarrow> error + string list" where
  "GetVotedIPs e d pollID =
     (if \<not> id_syntax e pollID \<or> fails e GetIPsQuery then Inl (Wrapped ''get ips'' DriverError)
      else let rows = [r \<leftarrow> ips d. ip_poll_id r = pollID] in
        if rows \<noteq> [] \<and> fails e GetIPsScan then Inl (Wrapped ''get ips - scan'' DriverError)
        else Inr (map ip_ip rows))"

section \<open>A sample store\<close>

text \<open>
  Concrete values for the examples. \<open>canonical_uuid\<close> is the input syntax of a
  \<^verbatim>\<open>uuid\<close> column in its canonical form, the shape \<^verbatim>\<open>readIDParam\<close> checks with
  \<^verbatim>\<open>uuid.Parse\<close> before a handler calls the model; \<open>simple_match\<close> compares whole words,
  as the \<^verbatim>\<open>simple\<close> text search configuration does; the digest of the sample
  environment is a stand-in for SHA-256.
\<close>

definition canonical_uuid :: "string \<Rightarrow> bool" where
  "canonical_uuid s =
     (map (\<lambda>c. if c \<in> set ''0123456789abcdef'' then CHR ''h''
                else if c = CHR ''-'' then c else CHR ''?'') s
      = ''hhhhhhhh-hhhh-hhhh-hhhh-hhhhhhhhhhhh'')"

fun split_words :: "string \<Rightarrow> string \<Rightarrow> string list" where
  "split_words w [] = (if w = [] then [] else [w])"
| "split_words w (c # cs) =
     (if c = CHR '' '' then (if w = [] then split_words [] cs else w # split_words [] cs)
      else split_words (w @ [c]) cs)"

definition simple_match :: "string \<Rightarrow> string \<Rightarrow> bool" where
  "simple_match q s =
     (split_words [] s \<noteq> [] \<and> set (split_words [] s) \<subseteq> set (split_words [] q))"

definition id_a :: string where "id_a = ''00000000-0000-4000-8000-00000000000a''"

definition id_b :: string where "id_b = ''00000000-0000-4000-8000-00000000000b''"

definition id_c :: string where "id_c = ''00000000-0000-4000-8000-00000000000c''"

definition env0 :: env where
  "env0 = \<lparr>id_syntax = canonical_uuid, ts_match = simple_match, sha256 = rev,
           fails = (\<lambda>s. False), NOW = 50, gen_poll_id = id_c,
           gen_option_id = (\<lambda>k. replicate (Suc k) CHR ''o'')\<rparr>"

text \<open>
  A public poll whose options are stored out of position order and carry votes, and a
  private poll.
\<close>

definition db_ex :: db where
  "db_ex =
     \<lparr>polls =
        [\<lparr>p_id = id_a, p_question = ''tea or coffee'', p_description = [], p_created_at = 10,
          p_updated_at = 10, p_expires_at = 0, p_results_visibility = ''always'',
          p_is_private = False\<rparr>,
         \<lparr>p_id = id_b, p_question = ''secret tea'', p_description = [], p_created_at = 20,
          p_updated_at = 20, p_expires_at = 0, p_results_visibility = ''always'',
          p_is_private = True\<rparr>],
      poll_options =
        [\<lparr>po_id = ''o1'', po_value = ''coffee'', po_poll_id = id_a, po_position = 1,
          po_vote_count = 0\<rparr>,
         \<lparr>po_id = ''o2'', po_value = ''tea'', po_poll_id = id_a, po_position = 0,
          po_vote_count = 3\<rparr>,
         \<lparr>po_id = ''o3'', po_value = ''yes'', po_poll_id = id_b, po_position = 0,
          po_vote_count = 1\<rparr>],
      tokens = [\<lparr>t_hash = rev ''secret-a'', t_poll_id = id_a\<rparr>],
      ips = []\<rparr>"

definition poll_ex :: Poll where
  "poll_ex =
     \<lparr>ID = id_a, Question = ''tea or coffee'', Description = [],
      Options = [\<lparr>opt_ID = ''o1'', opt_Value = ''coffee'', opt_Position = 1, opt_VoteCount = 0\<rparr>,
                 \<lparr>opt_ID = ''o2'', opt_Value = ''tea'', opt_Position = 0, opt_VoteCount = 0\<rparr>],
      CreatedAt = 10, UpdatedAt = 10, ExpiresAt = 0, ResultsVisibility = ''always'',
      IsPrivate = False, Token = []\<rparr>"

text \<open>
  The default filters of the listing test and the metadata of a one-poll result; an
  argument for \<^verbatim>\<open>Update\<close> that also differs from the stored poll in fields \<^verbatim>\<open>Update\<close>
  does not write, with the store after the update; a poll value whose identifier is
  not stored.
\<close>

definition filters_ex :: Filters where
  "filters_ex = \<lparr>Page = 1, PageSize = 20, Sort = ''-created_at'',
      SortSafelist = [''created_at'', ''question'', ''-created_at'', ''-question'']\<rparr>"

definition metadata_ex :: Metadata where
  "metadata_ex =
     \<lparr>CurrentPage = 1, Meta_PageSize = 20, FirstPage = 1, LastPage = 1, TotalRecords = 1\<rparr>"

definition upd_ex :: Poll where
  "upd_ex = poll_ex\<lparr>Question := ''tea or cocoa'', Description := ''hot drinks'', ExpiresAt := 99,
                     CreatedAt := 0, ResultsVisibility := ''never'', IsPrivate := True\<rparr>"

definition db_upd :: db where
  "db_upd = db_ex\<lparr>polls :=
        [\<lparr>p_id = id_a, p_question = ''tea or cocoa'', p_description = ''hot drinks'',
          p_created_at = 10, p_updated_at = 50, p_expires_at = 99,
          p_results_visibility = ''always'', p_is_private = False\<rparr>,
         polls db_ex ! 1]\<rparr>"

definition missing_ex :: Poll where
  "missing_ex = poll_ex\<lparr>ID := id_c\<rparr>"

text \<open>
  Values for creating a poll: an environment in which only the token statement fails,
  a poll with two options and what the store and \<^verbatim>\<open>Get\<close> hold after its rows are
  written, and a poll with no option.
\<close>

definition env_tok :: env where
  "env_tok = env0\<lparr>fails := (\<lambda>s. s = InsertTokenExec)\<rparr>"

definition new_ex :: Poll where
  "new_ex = Poll0\<lparr>Question := ''red or blue'',
      Options := [PollOption0\<lparr>opt_Value := ''red'', opt_Position := 0\<rparr>,
                  PollOption0\<lparr>opt_Value := ''blue'', opt_Position := 1\<rparr>],
      ResultsVisibility := ''always''\<rparr>"

definition created_ex :: Poll where
  "created_ex =
     \<lparr>ID = id_c, Question = ''red or blue'', Description = [],
      Options = [\<lparr>opt_ID = ''o'', opt_Value = ''red'', opt_Position = 0, opt_VoteCount = 0\<rparr>,
                 \<lparr>opt_ID = ''oo'', opt_Value = ''blue'', opt_Position = 1, opt_VoteCount = 0\<rparr>],
      CreatedAt = 50, UpdatedAt = 50, ExpiresAt = 0, ResultsVisibility = ''always'',
      IsPrivate = False, Token = []\<rparr>"

definition db_created :: db where
  "db_created =
     db_ex\<lparr>polls := polls db_ex @
         [\<lparr>p_id = id_c, p_question = ''red or blue'', p_description = [], p_created_at = 50,
           p_updated_at = 50, p_expires_at = 0, p_results_visibility = ''always'',
           p_is_private = False\<rparr>],
       poll_options := poll_options db_ex @
         [\<lparr>po_id = ''o'', po_value = ''red'', po_poll_id = id_c, po_position = 0,
           po_vote_count = 0\<rparr>,
          \<lparr>po_id = ''oo'', po_value = ''blue'', po_poll_id = id_c, po_position = 1,
           po_vote_count = 0\<rparr>]\<rparr>"

definition bare_ex :: Poll where
  "bare_ex = Poll0\<lparr>Question := ''no options''\<rparr>"

definition db_bare :: db where
  "db_bare =
     db_ex\<lparr>polls := polls db_ex @
         [\<lparr>p_id = id_c, p_question = ''no options'', p_description = [], p_created_at = 50,
           p_updated_at = 50, p_expires_at = 0, p_results_visibility = [],
           p_is_private = False\<rparr>]\<rparr>"

text \<open>
  The sample store after one address has voted on the first poll.
\<close>

definition db_voted :: db where
  "db_voted = db_ex\<lparr>ips := [\<lparr>ip_id = 1, ip_ip = ''203.0.113.7'', ip_poll_id = id_a\<rparr>]\<rparr>"

section \<open>Facts about the sample store\<close>

lemma uuid_examples:
  "canonical_uuid id_a" "canonical_uuid id_b" "canonical_uuid id_c" "\<not> canonical_uuid ''test''"
  by (simp_all add: canonical_uuid_def id_a_def id_b_def id_c_def)

lemma ids_distinct:
  "id_a \<noteq> id_b" "id_a \<noteq> id_c" "id_b \<noteq> id_c" "id_a \<noteq> []" "id_b \<noteq> []" "id_c \<noteq> []"
  by (simp_all add: id_a_def id_b_def id_c_def)

lemma db_ex_keys: "distinct (map p_id (polls db_ex))"
  using ids_distinct by (simp add: db_ex_def)

section \<open>Reading one poll\<close>

lemma get_loop_snd: "snd (get_loop rows f poll opts) = opts @ map (scan_option \<circ> snd) rows"
  by (induction rows f poll opts rule: get_loop.induct) (simp_all add: Let_def)

text \<open>The join, poll rows outside and option rows inside.\<close>

lemma join_rows_filter:
  "[(p, po). p \<leftarrow> ps, po \<leftarrow> os, po_poll_id po = p_id p \<and> p_id p = i] =
   concat (map (\<lambda>p. map (Pair p) [po \<leftarrow> os. po_poll_id po = i]) [p \<leftarrow> ps. p_id p = i])"
proof (induction ps)
  case Nil
  show ?case by simp
next
  case (Cons p ps)
  have inner:
    "concat (map (\<lambda>po. if po_poll_id po = p_id p \<and> p_id p = i then [(p, po)] else []) os)
       = (if p_id p = i then map (Pair p) [po \<leftarrow> os. po_poll_id po = i] else [])"
    by (induction os) auto
  show ?case using Cons inner by simp
qed

lemma get_rows_alt:
  "get_rows d i =
     concat (map (\<lambda>p. map (Pair p) [po \<leftarrow> poll_options d. po_poll_id po = i])
               [p \<leftarrow> polls d. p_id p = i])"
  unfolding get_rows_def by (rule join_rows_filter)

lemma filter_key_single:
  "distinct (map f ps) \<Longrightarrow> p \<in> set ps \<Longrightarrow> [q \<leftarrow> ps. f q = f p] = [p]"
  by (induction ps) (auto simp: image_iff filter_empty_conv)

lemma get_rows_empty:
  "get_rows d i = [] \<longleftrightarrow>
     ([p \<leftarrow> polls d. p_id p = i] = [] \<or> [po \<leftarrow> poll_options d. po_poll_id po = i] = [])"
  unfolding get_rows_alt by (auto simp: filter_empty_conv)

lemma get_rows_key:
  assumes "distinct (map p_id (polls d))" and "get_rows d i \<noteq> []"
  shows "map snd (get_rows d i) = [po \<leftarrow> poll_options d. po_poll_id po = i]"
proof -
  from assms(2) obtain p where p: "p \<in> set (polls d)" "p_id p = i"
    unfolding get_rows_empty by (auto simp: filter_empty_conv)
  with assms(1) have "[q \<leftarrow> polls d. p_id q = i] = [p]"
    using filter_key_single [of p_id "polls d" p] by simp
  then show ?thesis unfolding get_rows_alt by (simp add: comp_def)
qed

lemma Get_Inr_options:
  "Get e d i = Inr poll \<Longrightarrow>
     Options poll = map (scan_option \<circ> snd) (get_rows d i) \<and> get_rows d i \<noteq> []"
  unfolding Get_def Let_def
  using get_loop_snd [of "get_rows d i" True Poll0 "[]"]
  by (auto split: if_splits prod.splits)

lemma Get_NotFound:
  "Get e d i = Inl ErrRecordNotFound \<longleftrightarrow>
     i = [] \<or> (id_syntax e i \<and> \<not> fails e GetQuery \<and> get_rows d i = [])"
  unfolding Get_def Let_def
  using get_loop_snd [of "get_rows d i" True Poll0 "[]"]
  by (auto split: if_splits prod.splits)

lemma get_rows_db_ex:
  "get_rows db_ex id_a =
     [(hd (polls db_ex), poll_options db_ex ! 0), (hd (polls db_ex), poll_options db_ex ! 1)]"
  using ids_distinct by (simp add: get_rows_def db_ex_def)

lemma Get_db_ex: "Get env0 db_ex id_a = Inr poll_ex"
  using ids_distinct uuid_examples
  by (simp add: Get_def get_rows_db_ex env0_def Let_def)
     (simp add: db_ex_def poll_ex_def Poll0_def scan_option_def PollOption0_def)

text \<open>
  C4, as the code has it: \<^verbatim>\<open>Get\<close> returns the options in the order in which the query
  returns the joined rows, which is the order of the option rows in the store; the
  positions of the returned list are those of the stored rows in storage order, so
  the list is sorted by position only when the rows come back so.
\<close>

theorem Get_options_in_row_order:
  assumes "distinct (map p_id (polls d))" and "Get e d i = Inr poll"
  shows "Options poll = map scan_option [po \<leftarrow> poll_options d. po_poll_id po = i] \<and>
         map opt_Position (Options poll) =
           map po_position [po \<leftarrow> poll_options d. po_poll_id po = i]"
proof -
  from assms(2) have o: "Options poll = map (scan_option \<circ> snd) (get_rows d i)"
    and ne: "get_rows d i \<noteq> []"
    using Get_Inr_options by blast+
  have "map (scan_option \<circ> snd) (get_rows d i) = map scan_option (map snd (get_rows d i))"
    by simp
  also have "\<dots> = map scan_option [po \<leftarrow> poll_options d. po_poll_id po = i]"
    using get_rows_key [OF assms(1) ne] by simp
  finally have "Options poll = map scan_option [po \<leftarrow> poll_options d. po_poll_id po = i]"
    using o by simp
  then show ?thesis by (simp add: scan_option_def comp_def)
qed

text \<open>The sample store, whose first poll has its options stored at positions 1, 0.\<close>

theorem Get_options_in_row_order_witness:
  "distinct (map p_id (polls db_ex)) \<and> Get env0 db_ex id_a = Inr poll_ex \<and>
   map opt_Position (Options poll_ex) =
     map po_position [po \<leftarrow> poll_options db_ex. po_poll_id po = id_a] \<and>
   map po_position [po \<leftarrow> poll_options db_ex. po_poll_id po = id_a] = [1, 0]"
proof -
  have h2: "map po_position [po \<leftarrow> poll_options db_ex. po_poll_id po = id_a] = [1, 0]"
    using ids_distinct by (simp add: db_ex_def)
  from Get_options_in_row_order [OF db_ex_keys Get_db_ex]
  have h3: "map opt_Position (Options poll_ex) =
            map po_position [po \<leftarrow> poll_options db_ex. po_poll_id po = id_a]"
    by (rule conjunct2)
  show ?thesis using db_ex_keys Get_db_ex h3 h2 by (intro conjI)
qed

text \<open>
  C4 as stated fails: on the sample store \<^verbatim>\<open>Get\<close> succeeds and the options it returns
  have positions 1, 0, which is not ascending.
\<close>

theorem Get_options_unsorted:
  "Get env0 db_ex id_a = Inr poll_ex \<and> map opt_Position (Options poll_ex) = [1, 0] \<and>
   \<not> sorted (map opt_Position (Options poll_ex))"
  using Get_db_ex by (simp add: poll_ex_def)

text \<open>
  C7, as the code has it: \<^verbatim>\<open>Get\<close> fails with \<^verbatim>\<open>ErrRecordNotFound\<close> exactly when the
  identifier is empty, or the store accepts the identifier, the query runs and it
  returns no joined row (no poll row has the identifier, or no option row refers to
  it). \<^verbatim>\<open>Get\<close> does not check the shape of a non-empty identifier: one the store
  rejects fails the query, and \<^verbatim>\<open>Get\<close> returns that failure wrapped as \<^verbatim>\<open>get poll\<close>.
\<close>

theorem Get_NotFound_iff:
  "(is_NotFound (Get e d i) \<longleftrightarrow>
      i = [] \<or> (id_syntax e i \<and> \<not> fails e GetQuery \<and>
        ([p \<leftarrow> polls d. p_id p = i] = [] \<or> [po \<leftarrow> poll_options d. po_poll_id po = i] = []))) \<and>
   (i \<noteq> [] \<and> \<not> id_syntax e i \<longrightarrow> Get e d i = Inl (Wrapped ''get poll'' DriverError))"
proof -
  have "is_NotFound (Get e d i) \<longleftrightarrow> Get e d i = Inl ErrRecordNotFound"
    unfolding is_NotFound_def Get_def Let_def by (auto split: if_splits prod.splits sum.splits)
  moreover have "i \<noteq> [] \<and> \<not> id_syntax e i \<longrightarrow> Get e d i = Inl (Wrapped ''get poll'' DriverError)"
    by (simp add: Get_def)
  ultimately show ?thesis unfolding Get_NotFound get_rows_empty by blast
qed

text \<open>
  On the sample store: a well-formed identifier that no poll has is not found; the
  malformed identifier \<^verbatim>\<open>test\<close> is not reported as not found.
\<close>

theorem Get_NotFound_iff_witness:
  "id_syntax env0 id_c \<and> \<not> fails env0 GetQuery \<and> [p \<leftarrow> polls db_ex. p_id p = id_c] = [] \<and>
   is_NotFound (Get env0 db_ex id_c) \<and>
   ''test'' \<noteq> [] \<and> \<not> id_syntax env0 ''test'' \<and> \<not> is_NotFound (Get env0 db_ex ''test'')"
proof -
  have h: "id_syntax env0 id_c" "\<not> fails env0 GetQuery"
    "[p \<leftarrow> polls db_ex. p_id p = id_c] = []" "\<not> id_syntax env0 ''test''"
    using uuid_examples ids_distinct by (simp_all add: env0_def db_ex_def)
  have ne: "''test'' \<noteq> []" by simp
  from Get_NotFound_iff [of env0 db_ex id_c] h have found: "is_NotFound (Get env0 db_ex id_c)"
    by blast
  from Get_NotFound_iff [of env0 db_ex "''test''"] h ne
  have malformed: "\<not> is_NotFound (Get env0 db_ex ''test'')"
    by blast
  show ?thesis using h ne found malformed by (intro conjI)
qed

text \<open>
  C7 as stated fails: the malformed identifier \<^verbatim>\<open>test\<close> (the invalid identifier of
  the test of \<^verbatim>\<open>readIDParam\<close>) makes \<^verbatim>\<open>Get\<close> return the wrapped driver failure, which
  \<^verbatim>\<open>errors.Is\<close> does not take for \<^verbatim>\<open>ErrRecordNotFound\<close>.
\<close>

theorem Get_malformed_id_not_NotFound:
  "\<not> id_syntax env0 ''test'' \<and>
   Get env0 db_ex ''test'' = Inl (Wrapped ''get poll'' DriverError) \<and>
   \<not> errors_Is (Wrapped ''get poll'' DriverError) ErrRecordNotFound"
  using uuid_examples by (simp add: Get_def env0_def)

section \<open>Listing polls\<close>

lemma set_insort_by: "set (insort_by le x xs) = insert x (set xs)"
  by (induction xs) auto

lemma set_sort_by: "set (sort_by le xs) = set xs"
  unfolding sort_by_def by (induction xs) (simp_all add: set_insort_by)

lemma getall_groups_set:
  "set (getall_groups e d search) =
     {(p, pos). p \<in> set (polls d) \<and> pos = [po \<leftarrow> poll_options d. po_poll_id po = p_id p] \<and>
                pos \<noteq> [] \<and> getall_where e search p}"
  unfolding getall_groups_def by auto

text \<open>A successful listing is the scan of some of the groups.\<close>

lemma GetAll_Inr:
  assumes "GetAll e d search filters = Inr (ps, md)"
  shows "\<exists>page. ps = map getall_scan page \<and> set page \<subseteq> set (getall_groups e d search)"
proof -
  from assms obtain col le where "sortColumn filters = Some col" "column_le col = Some le"
    unfolding GetAll_def by (auto split: option.splits)
  with assms have
    "ps = map getall_scan
            (take (nat (limit filters)) (drop (nat (offset filters))
               (sort_by (row_before le (sortDirection filters)) (getall_groups e d search))))"
    unfolding GetAll_def Let_def by (auto split: if_splits)
  moreover have
    "set (take (nat (limit filters)) (drop (nat (offset filters))
               (sort_by (row_before le (sortDirection filters)) (getall_groups e d search))))
     \<subseteq> set (getall_groups e d search)"
    using set_take_subset set_drop_subset set_sort_by by (metis subset_trans)
  ultimately show ?thesis by blast
qed

lemma key_unique:
  "distinct (map f xs) \<Longrightarrow> x \<in> set xs \<Longrightarrow> y \<in> set xs \<Longrightarrow> f x = f y \<Longrightarrow> x = y"
  by (meson distinct_map inj_onD)

lemma getall_scan_private: "IsPrivate (getall_scan g) = False"
  by (cases g) (simp add: Poll0_def)

lemma getall_scan_ID: "ID (getall_scan g) = p_id (fst g)"
  by (cases g) simp

lemma getall_scan_options: "Options (getall_scan g) = map scan_option (snd g)"
  by (cases g) simp

lemma scan_option_votes: "opt_VoteCount (scan_option po) = 0"
  by (simp add: scan_option_def PollOption0_def)

lemma getall_groups_db_ex:
  "getall_groups env0 db_ex ''tea'' =
     [(hd (polls db_ex), [poll_options db_ex ! 0, poll_options db_ex ! 1])]"
  using ids_distinct
  by (simp add: getall_groups_def getall_where_def db_ex_def env0_def simple_match_def)

lemma filters_ex_sort:
  "sortColumn filters_ex = Some ''created_at''" "sortDirection filters_ex = ''DESC''"
  "limit filters_ex = 20" "offset filters_ex = 0"
  by (simp_all add: sortColumn_def sortDirection_def limit_def offset_def filters_ex_def
        strip_marker_def)

lemma GetAll_db_ex: "GetAll env0 db_ex ''tea'' filters_ex = Inr ([poll_ex], metadata_ex)"
  by (simp add: GetAll_def filters_ex_sort column_le_def getall_groups_db_ex sort_by_def Let_def)
     (simp add: env0_def calculateMetadata_def filters_ex_def db_ex_def poll_ex_def Poll0_def
        scan_option_def PollOption0_def metadata_ex_def)

lemma private_row_db_ex:
  "polls db_ex ! 1 \<in> set (polls db_ex)" "p_is_private (polls db_ex ! 1)"
  "p_id (polls db_ex ! 1) = id_b" "ts_match env0 (p_question (polls db_ex ! 1)) ''tea''"
  by (simp_all add: db_ex_def env0_def simple_match_def)

text \<open>
  C6: in a store whose poll identifiers are a key, whatever the search text and the
  filters, a successful \<^verbatim>\<open>GetAll\<close> lists no identifier of a stored poll whose private
  flag is set, and no poll value it returns has the flag set.
\<close>

theorem GetAll_excludes_private:
  assumes keys: "distinct (map p_id (polls d))"
    and res: "GetAll e d search filters = Inr (ps, md)"
  shows "(\<forall>r \<in> set (polls d). p_is_private r \<longrightarrow> p_id r \<notin> ID ` set ps) \<and>
         (\<forall>P \<in> set ps. \<not> IsPrivate P)"
proof -
  from GetAll_Inr [OF res] obtain page where
    ps: "ps = map getall_scan page" and sub: "set page \<subseteq> set (getall_groups e d search)"
    by blast
  have "p_id r \<notin> ID ` set ps" if r: "r \<in> set (polls d)" and priv: "p_is_private r" for r
  proof
    assume "p_id r \<in> ID ` set ps"
    then obtain g where g: "g \<in> set page" and eq: "p_id r = p_id (fst g)"
      unfolding ps by (auto simp: getall_scan_ID)
    from g sub have "fst g \<in> set (polls d)" and pub: "\<not> p_is_private (fst g)"
      unfolding getall_groups_set getall_where_def by auto
    with keys r eq have "r = fst g" using key_unique [of p_id "polls d" r "fst g"] by simp
    with priv pub show False by simp
  qed
  moreover have "\<forall>P \<in> set ps. \<not> IsPrivate P"
    unfolding ps by (simp add: getall_scan_private)
  ultimately show ?thesis by blast
qed

text \<open>
  On the sample store the private poll's question matches the search text \<^verbatim>\<open>tea\<close>,
  and the listing holds the public poll only.
\<close>

theorem GetAll_excludes_private_witness:
  "distinct (map p_id (polls db_ex)) \<and>
   GetAll env0 db_ex ''tea'' filters_ex = Inr ([poll_ex], metadata_ex) \<and>
   p_is_private (polls db_ex ! 1) \<and> ts_match env0 (p_question (polls db_ex ! 1)) ''tea'' \<and>
   p_id (polls db_ex ! 1) \<notin> ID ` set [poll_ex] \<and> \<not> IsPrivate poll_ex"
proof -
  from GetAll_excludes_private [OF db_ex_keys GetAll_db_ex] private_row_db_ex(1,2)
  have "p_id (polls db_ex ! 1) \<notin> ID ` set [poll_ex]" and "\<not> IsPrivate poll_ex"
    by auto
  with db_ex_keys GetAll_db_ex private_row_db_ex show ?thesis by (intro conjI)
qed

text \<open>
  C10: every option in the value a successful \<^verbatim>\<open>Get\<close> returns, and in every poll a
  successful \<^verbatim>\<open>GetAll\<close> returns, has vote count 0, whatever the stored
  \<^verbatim>\<open>vote_count\<close> is: neither query selects the column.
\<close>

theorem reads_return_zero_votes:
  "(Get e d i = Inr poll \<longrightarrow> (\<forall>opt \<in> set (Options poll). opt_VoteCount opt = 0)) \<and>
   (GetAll e d search filters = Inr (ps, md) \<longrightarrow>
      (\<forall>P \<in> set ps. \<forall>opt \<in> set (Options P). opt_VoteCount opt = 0))"
proof (intro conjI impI)
  assume "Get e d i = Inr poll"
  then have "Options poll = map (scan_option \<circ> snd) (get_rows d i)"
    using Get_Inr_options by blast
  then show "\<forall>opt \<in> set (Options poll). opt_VoteCount opt = 0"
    by (auto simp: scan_option_votes)
next
  assume "GetAll e d search filters = Inr (ps, md)"
  from GetAll_Inr [OF this] obtain page where ps: "ps = map getall_scan page" by blast
  show "\<forall>P \<in> set ps. \<forall>opt \<in> set (Options P). opt_VoteCount opt = 0"
    unfolding ps by (auto simp: getall_scan_options scan_option_votes)
qed

text \<open>
  On the sample store the options of the first poll hold 0 and 3 votes; both reads
  return them with 0 votes.
\<close>

theorem reads_return_zero_votes_witness:
  "Get env0 db_ex id_a = Inr poll_ex \<and>
   GetAll env0 db_ex ''tea'' filters_ex = Inr ([poll_ex], metadata_ex) \<and>
   map po_vote_count [po \<leftarrow> poll_options db_ex. po_poll_id po = id_a] = [0, 3] \<and>
   list_all (\<lambda>opt. opt_VoteCount opt = 0) (Options poll_ex)"
proof -
  have stored: "map po_vote_count [po \<leftarrow> poll_options db_ex. po_poll_id po = id_a] = [0, 3]"
    using ids_distinct by (simp add: db_ex_def)
  from reads_return_zero_votes
         [where e = env0 and d = db_ex and i = id_a and poll = poll_ex and search = "''tea''"
            and filters = filters_ex and ps = "[poll_ex]" and md = metadata_ex]
       Get_db_ex GetAll_db_ex
  have "list_all (\<lambda>opt. opt_VoteCount opt = 0) (Options poll_ex)"
    by (simp add: list_all_iff)
  with Get_db_ex GetAll_db_ex stored show ?thesis by (intro conjI)
qed

section \<open>Updating a poll, checking a token\<close>

lemma update_row_frame:
  "p_id (update_row e poll r) = p_id r" "p_created_at (update_row e poll r) = p_created_at r"
  "p_results_visibility (update_row e poll r) = p_results_visibility r"
  "p_is_private (update_row e poll r) = p_is_private r"
  by (simp_all add: update_row_def)

lemma update_row_other: "p_id r \<noteq> ID poll \<Longrightarrow> update_row e poll r = r"
  by (simp add: update_row_def)

lemma update_row_match:
  "p_id r = ID poll \<Longrightarrow>
     p_question (update_row e poll r) = Question poll \<and>
     p_description (update_row e poll r) = Description poll \<and>
     p_expires_at (update_row e poll r) = ExpiresAt poll \<and>
     p_updated_at (update_row e poll r) = NOW e"
  by (simp add: update_row_def)

lemma filter_update_other:
  "[r \<leftarrow> map (update_row e poll) rs. p_id r \<noteq> ID poll] = [r \<leftarrow> rs. p_id r \<noteq> ID poll]"
  by (induction rs) (auto simp: update_row_frame update_row_other)

lemma Update_None:
  "Update e d poll = (None, poll', d') \<Longrightarrow>
     poll' = poll\<lparr>UpdatedAt := NOW e\<rparr> \<and> d' = d\<lparr>polls := map (update_row e poll) (polls d)\<rparr>"
  unfolding Update_def by (auto split: if_splits)

text \<open>
  C9: a successful \<^verbatim>\<open>Update\<close> leaves the option rows (and so the vote tallies), the
  tokens and the vote ledger as they were; of the poll rows it keeps every
  \<^verbatim>\<open>id\<close>, \<^verbatim>\<open>created_at\<close>, \<^verbatim>\<open>results_visibility\<close> and \<^verbatim>\<open>is_private\<close>, keeps the rows of
  other polls whole, and gives the matched row the question, description and expiry
  of the argument and \<^verbatim>\<open>NOW()\<close> as \<^verbatim>\<open>updated_at\<close>; of the caller's value only
  \<^verbatim>\<open>UpdatedAt\<close> changes.
\<close>

theorem Update_frame:
  assumes "Update e d poll = (None, poll', d')"
  shows "poll_options d' = poll_options d \<and> tokens d' = tokens d \<and> ips d' = ips d \<and>
         map p_id (polls d') = map p_id (polls d) \<and>
         map p_created_at (polls d') = map p_created_at (polls d) \<and>
         map p_results_visibility (polls d') = map p_results_visibility (polls d) \<and>
         map p_is_private (polls d') = map p_is_private (polls d) \<and>
         [r \<leftarrow> polls d'. p_id r \<noteq> ID poll] = [r \<leftarrow> polls d. p_id r \<noteq> ID poll] \<and>
         (\<forall>r \<in> set (polls d'). p_id r = ID poll \<longrightarrow>
            p_question r = Question poll \<and> p_description r = Description poll \<and>
            p_expires_at r = ExpiresAt poll \<and> p_updated_at r = NOW e) \<and>
         poll' = poll\<lparr>UpdatedAt := NOW e\<rparr>"
proof -
  from Update_None [OF assms] have p: "poll' = poll\<lparr>UpdatedAt := NOW e\<rparr>"
    and d: "d' = d\<lparr>polls := map (update_row e poll) (polls d)\<rparr>" by blast+
  have "\<forall>r \<in> set (polls d'). p_id r = ID poll \<longrightarrow>
            p_question r = Question poll \<and> p_description r = Description poll \<and>
            p_expires_at r = ExpiresAt poll \<and> p_updated_at r = NOW e"
    unfolding d using update_row_match by (auto simp: update_row_frame)
  moreover have "[r \<leftarrow> polls d'. p_id r \<noteq> ID poll] = [r \<leftarrow> polls d. p_id r \<noteq> ID poll]"
    unfolding d by (simp add: filter_update_other)
  moreover have "map p_id (polls d') = map p_id (polls d)"
     "map p_created_at (polls d') = map p_created_at (polls d)"
     "map p_results_visibility (polls d') = map p_results_visibility (polls d)"
     "map p_is_private (polls d') = map p_is_private (polls d)"
    unfolding d by (simp_all add: comp_def update_row_frame)
  moreover have "poll_options d' = poll_options d" "tokens d' = tokens d" "ips d' = ips d"
    unfolding d by simp_all
  ultimately show ?thesis using p by blast
qed

lemma Update_db_ex: "Update env0 db_ex upd_ex = (None, upd_ex\<lparr>UpdatedAt := 50\<rparr>, db_upd)"
  using ids_distinct uuid_examples
  by (simp add: Update_def upd_ex_def poll_ex_def env0_def)
     (simp add: db_ex_def db_upd_def update_row_def)

text \<open>
  On the sample store, with an argument that also carries another creation time,
  visibility and private flag: these are not written.
\<close>

theorem Update_frame_witness:
  "Update env0 db_ex upd_ex = (None, upd_ex\<lparr>UpdatedAt := 50\<rparr>, db_upd) \<and>
   poll_options db_upd = poll_options db_ex \<and>
   map p_id (polls db_upd) = map p_id (polls db_ex) \<and>
   map p_created_at (polls db_upd) = map p_created_at (polls db_ex) \<and>
   map p_question (polls db_upd) = [''tea or cocoa'', ''secret tea''] \<and>
   map p_updated_at (polls db_upd) = [50, 20]"
proof -
  have shown: "map p_question (polls db_upd) = [''tea or cocoa'', ''secret tea'']"
    "map p_updated_at (polls db_upd) = [50, 20]"
    by (simp_all add: db_upd_def db_ex_def)
  from Update_frame [OF Update_db_ex]
  have "poll_options db_upd = poll_options db_ex"
    "map p_id (polls db_upd) = map p_id (polls db_ex)"
    "map p_created_at (polls db_upd) = map p_created_at (polls db_ex)"
    by blast+
  with Update_db_ex shown show ?thesis by (intro conjI)
qed

text \<open>
  C5, what the code does: for a well-formed identifier that no poll row has, the
  statement returns no row and \<^verbatim>\<open>Update\<close> returns the driver's \<^verbatim>\<open>pgx.ErrNoRows\<close> as it
  is (unlike \<^verbatim>\<open>CheckToken\<close>, which maps it, and \<^verbatim>\<open>Delete\<close> and \<^verbatim>\<open>Get\<close>, which return
  \<^verbatim>\<open>ErrRecordNotFound\<close>); \<^verbatim>\<open>errors.Is\<close> does not take it for \<^verbatim>\<open>ErrRecordNotFound\<close>.
\<close>

theorem Update_missing_id_ErrNoRows:
  assumes "id_syntax e (ID poll)" and "\<not> fails e UpdateQuery"
    and "[r \<leftarrow> polls d. p_id r = ID poll] = []"
  shows "Update e d poll = (Some ErrNoRows, poll, d) \<and>
         \<not> errors_Is ErrNoRows ErrRecordNotFound"
  using assms by (simp add: Update_def)

text \<open>The failing input: the sample store and a poll value whose identifier is not stored.\<close>

theorem Update_missing_id_ErrNoRows_witness:
  "id_syntax env0 (ID missing_ex) \<and> \<not> fails env0 UpdateQuery \<and>
   [r \<leftarrow> polls db_ex. p_id r = ID missing_ex] = [] \<and>
   Update env0 db_ex missing_ex = (Some ErrNoRows, missing_ex, db_ex) \<and>
   \<not> errors_Is ErrNoRows ErrRecordNotFound"
proof -
  have h: "id_syntax env0 (ID missing_ex)" "\<not> fails env0 UpdateQuery"
    "[r \<leftarrow> polls db_ex. p_id r = ID missing_ex] = []"
    using ids_distinct uuid_examples by (simp_all add: env0_def missing_ex_def db_ex_def)
  from Update_missing_id_ErrNoRows [OF h] h show ?thesis by (intro conjI) blast+
qed

text \<open>
  C8: two plaintext tokens whose digests match no token row get the same answer from
  \<^verbatim>\<open>CheckToken\<close>, and when the query does not fail that answer is \<^verbatim>\<open>ErrRecordNotFound\<close>
  for both.
\<close>

theorem CheckToken_unmatched_identical:
  assumes "[r \<leftarrow> tokens d. t_hash r = sha256 e t1] = []"
    and "[r \<leftarrow> tokens d. t_hash r = sha256 e t2] = []"
  shows "CheckToken e d t1 = CheckToken e d t2 \<and>
         (\<not> fails e CheckTokenQuery \<longrightarrow>
            CheckToken e d t1 = Inl ErrRecordNotFound \<and> CheckToken e d t2 = Inl ErrRecordNotFound)"
  using assms by (simp add: CheckToken_def)

lemma CheckToken_db_ex: "CheckToken env0 db_ex ''secret-a'' = Inr id_a"
  by (simp add: CheckToken_def env0_def db_ex_def)

text \<open>
  On the sample store, which holds the token of the first poll: a wrong token and a
  token that was never issued are both not found.
\<close>

theorem CheckToken_unmatched_identical_witness:
  "[r \<leftarrow> tokens db_ex. t_hash r = sha256 env0 ''secret-b''] = [] \<and>
   [r \<leftarrow> tokens db_ex. t_hash r = sha256 env0 ''never issued''] = [] \<and>
   \<not> fails env0 CheckTokenQuery \<and>
   CheckToken env0 db_ex ''secret-a'' = Inr id_a \<and>
   CheckToken env0 db_ex ''secret-b'' = Inl ErrRecordNotFound \<and>
   CheckToken env0 db_ex ''never issued'' = Inl ErrRecordNotFound"
proof -
  have h: "[r \<leftarrow> tokens db_ex. t_hash r = sha256 env0 ''secret-b''] = []"
    "[r \<leftarrow> tokens db_ex. t_hash r = sha256 env0 ''never issued''] = []"
    by (simp_all add: env0_def db_ex_def)
  have ok: "\<not> fails env0 CheckTokenQuery" by (simp add: env0_def)
  from CheckToken_unmatched_identical [OF h] ok
  have "CheckToken env0 db_ex ''secret-b'' = Inl ErrRecordNotFound"
    "CheckToken env0 db_ex ''never issued'' = Inl ErrRecordNotFound"
    by blast+
  with h ok CheckToken_db_ex show ?thesis by (intro conjI)
qed

section \<open>Creating a poll\<close>

lemma get_loop_False: "fst (get_loop rows False poll opts) = poll"
  by (induction rows arbitrary: opts) (auto simp: Let_def)

lemma get_loop_first:
  "ID (fst (get_loop ((p, po) # rows) True poll opts)) = p_id p \<and>
   Question (fst (get_loop ((p, po) # rows) True poll opts)) = p_question p"
  by (simp add: Let_def get_loop_False)

lemma Get_Inr_intro:
  assumes "i \<noteq> []" "id_syntax e i" "\<not> fails e GetQuery" "\<not> fails e GetScan"
    and rows: "get_rows d i = (p, po) # rows"
  shows "\<exists>P. Get e d i = Inr P \<and> ID P = p_id p \<and> Question P = p_question p \<and>
              Options P = map (scan_option \<circ> snd) ((p, po) # rows)"
proof -
  obtain poll opts where g: "get_loop ((p, po) # rows) True Poll0 [] = (poll, opts)"
    by (cases "get_loop ((p, po) # rows) True Poll0 []") blast
  from g get_loop_snd [of "(p, po) # rows" True Poll0 "[]"]
  have opts: "opts = map (scan_option \<circ> snd) ((p, po) # rows)" by simp
  from g get_loop_first [of p po rows Poll0 "[]"]
  have poll: "ID poll = p_id p" "Question poll = p_question p" by simp_all
  have "Get e d i = Inr (poll\<lparr>Options := opts\<rparr>)"
    using assms(1-4) g opts unfolding Get_def rows Let_def by simp
  with poll opts show ?thesis by simp
qed

lemma new_option_rows_poll:
  "[po \<leftarrow> new_option_rows e pid k opts. po_poll_id po = pid] = new_option_rows e pid k opts"
  by (induction opts arbitrary: k) simp_all

lemma new_option_rows_values:
  "map (opt_Value \<circ> scan_option) (new_option_rows e pid k opts) = map opt_Value opts"
  by (induction opts arbitrary: k) (simp_all add: scan_option_def)

lemma new_option_rows_Nil: "new_option_rows e pid k opts = [] \<longleftrightarrow> opts = []"
  by (cases opts) simp_all

lemma no_orphans:
  assumes "\<forall>po \<in> set (poll_options d). po_poll_id po \<in> p_id ` set (polls d)"
    and "[r \<leftarrow> polls d. p_id r = i] = []"
  shows "[po \<leftarrow> poll_options d. po_poll_id po = i] = []"
  using assms by (fastforce simp: filter_empty_conv image_iff)

lemma Insert_Some_cases:
  assumes "Insert e d poll h = (Some err, poll', d')"
  shows "(err = Wrapped ''insert poll'' DriverError \<and> d' = d) \<or>
         ([r \<leftarrow> polls d. p_id r = gen_poll_id e] = [] \<and>
          ((err = Wrapped ''insert poll options'' DriverError \<and>
            d' = d\<lparr>polls := polls d @ [new_poll_row e poll]\<rparr>) \<or>
           ((err = Wrapped ''scan option id'' DriverError \<or> err = DriverError) \<and>
            Options poll \<noteq> [] \<and>
            d' = d\<lparr>polls := polls d @ [new_poll_row e poll],
                   poll_options := poll_options d @
                     new_option_rows e (gen_poll_id e) 0 (Options poll)\<rparr>)))"
  using assms unfolding Insert_def Let_def
  by (auto split: if_splits simp: new_poll_row_def)

text \<open>
  C1, as the code has it: the three writes are three statements, and a failed
  \<^verbatim>\<open>Insert\<close> undoes none of them. In a store whose option rows all refer to a stored
  poll, a failed \<^verbatim>\<open>Insert\<close> is one of three cases. The poll statement failed: the
  store is unchanged. The option statement failed: the poll row stays in \<^verbatim>\<open>polls\<close>;
  \<^verbatim>\<open>Get\<close> of its identifier answers \<^verbatim>\<open>ErrRecordNotFound\<close> and no successful \<^verbatim>\<open>GetAll\<close>
  lists it, because both join on the option rows. The scan of the option identifiers
  or the token statement failed: the poll row and its option rows stay, and \<^verbatim>\<open>Get\<close> of
  the identifier returns the poll with the question and the option values given.
\<close>

theorem Insert_failure_keeps_poll_row:
  assumes ins: "Insert e d poll h = (Some err, poll', d')"
    and fk: "\<forall>po \<in> set (poll_options d). po_poll_id po \<in> p_id ` set (polls d)"
    and ok: "gen_poll_id e \<noteq> []" "id_syntax e' (gen_poll_id e)" "\<not> fails e' GetQuery"
      "\<not> fails e' GetScan"
  shows
    "(err = Wrapped ''insert poll'' DriverError \<and> d' = d) \<or>
     (err = Wrapped ''insert poll options'' DriverError \<and>
      d' = d\<lparr>polls := polls d @ [new_poll_row e poll]\<rparr> \<and>
      Get e' d' (gen_poll_id e) = Inl ErrRecordNotFound \<and>
      (\<forall>search filters ps md. GetAll e' d' search filters = Inr (ps, md) \<longrightarrow>
         gen_poll_id e \<notin> ID ` set ps)) \<or>
     ((err = Wrapped ''scan option id'' DriverError \<or> err = DriverError) \<and>
      d' = d\<lparr>polls := polls d @ [new_poll_row e poll],
             poll_options := poll_options d @
               new_option_rows e (gen_poll_id e) 0 (Options poll)\<rparr> \<and>
      (\<exists>P. Get e' d' (gen_poll_id e) = Inr P \<and> ID P = gen_poll_id e \<and>
            Question P = Question poll \<and>
            map opt_Value (Options P) = map opt_Value (Options poll)))"
proof -
  let ?i = "gen_poll_id e"
  let ?row = "new_poll_row e poll"
  let ?new = "new_option_rows e ?i 0 (Options poll)"
  have row_id: "p_id ?row = ?i" by (simp add: new_poll_row_def)
  from Insert_Some_cases [OF ins] consider
      (poll) "err = Wrapped ''insert poll'' DriverError" "d' = d"
    | (options) "[r \<leftarrow> polls d. p_id r = ?i] = []"
        "err = Wrapped ''insert poll options'' DriverError"
        "d' = d\<lparr>polls := polls d @ [?row]\<rparr>"
    | (later) "[r \<leftarrow> polls d. p_id r = ?i] = []"
        "err = Wrapped ''scan option id'' DriverError \<or> err = DriverError"
        "Options poll \<noteq> []"
        "d' = d\<lparr>polls := polls d @ [?row], poll_options := poll_options d @ ?new\<rparr>"
    by blast
  then show ?thesis
  proof cases
    case poll
    then show ?thesis by simp
  next
    case options
    from no_orphans [OF fk options(1)]
    have none: "[po \<leftarrow> poll_options d'. po_poll_id po = ?i] = []"
      unfolding options(3) by simp
    then have "get_rows d' ?i = []" unfolding get_rows_empty by simp
    then have get: "Get e' d' ?i = Inl ErrRecordNotFound"
      using ok unfolding Get_NotFound by simp
    have "?i \<notin> ID ` set ps" if res: "GetAll e' d' search filters = Inr (ps, md)"
      for search filters ps md
    proof
      assume "?i \<in> ID ` set ps"
      moreover from GetAll_Inr [OF res] obtain page where
        "ps = map getall_scan page" "set page \<subseteq> set (getall_groups e' d' search)"
        by blast
      ultimately obtain g where
        g: "g \<in> set (getall_groups e' d' search)" and eq: "p_id (fst g) = ?i"
        by (auto simp: getall_scan_ID simp del: getall_scan.simps)
      from g have "[po \<leftarrow> poll_options d'. po_poll_id po = p_id (fst g)] \<noteq> []"
        unfolding getall_groups_set by auto
      with none eq show False by simp
    qed
    with options get show ?thesis by blast
  next
    case later
    from no_orphans [OF fk later(1)]
    have opts: "[po \<leftarrow> poll_options d'. po_poll_id po = ?i] = ?new"
      unfolding later(4) by (simp add: new_option_rows_poll)
    have rows: "[p \<leftarrow> polls d'. p_id p = ?i] = [?row]"
      unfolding later(4) using later(1) row_id by simp
    from later(3) obtain po pos where new: "?new = po # pos"
      by (cases ?new) (simp_all add: new_option_rows_Nil)
    have "get_rows d' ?i = (?row, po) # map (Pair ?row) pos"
      unfolding get_rows_alt rows opts new by simp
    from Get_Inr_intro [OF ok this] obtain P where
      P: "Get e' d' ?i = Inr P" "ID P = ?i" "Question P = Question poll"
         "Options P = map (scan_option \<circ> snd) ((?row, po) # map (Pair ?row) pos)"
      by (auto simp: new_poll_row_def)
    have "map (scan_option \<circ> snd) ((?row, po) # map (Pair ?row) pos) = map scan_option ?new"
      unfolding new by (simp add: comp_def)
    with P(4) have "map opt_Value (Options P) = map opt_Value (Options poll)"
      using new_option_rows_values [of e ?i 0 "Options poll"] by simp
    with later P show ?thesis by blast
  qed
qed

lemma Insert_bare: 
  "Insert env0 db_ex bare_ex ''digest'' =
     (Some (Wrapped ''insert poll options'' DriverError),
      bare_ex\<lparr>ID := id_c, CreatedAt := 50, UpdatedAt := 50\<rparr>, db_bare)"
  using ids_distinct
  by (simp add: Insert_def env0_def db_ex_def bare_ex_def Poll0_def new_poll_row_def db_bare_def)

lemma Insert_token_fails:
  "Insert env_tok db_ex new_ex ''digest'' = (Some DriverError, created_ex, db_created)"
  using ids_distinct
  by (simp add: Insert_def env_tok_def env0_def new_ex_def Poll0_def new_poll_row_def Let_def
        PollOption0_def)
     (simp add: db_ex_def db_created_def created_ex_def)

lemma db_ex_fk: "\<forall>po \<in> set (poll_options db_ex). po_poll_id po \<in> p_id ` set (polls db_ex)"
  by (simp add: db_ex_def)

lemma get_rows_db_created:
  "get_rows db_created id_c =
     [(polls db_created ! 2, poll_options db_created ! 3),
      (polls db_created ! 2, poll_options db_created ! 4)]"
  using ids_distinct by (simp add: get_rows_def db_created_def db_ex_def)

lemma Get_db_created: "Get env0 db_created id_c = Inr created_ex"
  using ids_distinct uuid_examples
  by (simp add: Get_def get_rows_db_created env0_def Let_def)
     (simp add: db_created_def db_ex_def created_ex_def Poll0_def scan_option_def PollOption0_def)

lemma Get_db_ex_missing: "Get env0 db_ex id_c = Inl ErrRecordNotFound"
  unfolding Get_NotFound get_rows_empty using uuid_examples ids_distinct
  by (simp add: env0_def db_ex_def)

text \<open>
  C1 as stated fails: the identifier is not found before the call; the token
  statement fails after the poll row is written; \<^verbatim>\<open>Insert\<close> returns the error and
  \<^verbatim>\<open>Get\<close> then returns the poll, in a store that differs from the one before.
\<close>

theorem Insert_token_failure_leaves_poll_visible:
  "Get env0 db_ex id_c = Inl ErrRecordNotFound \<and>
   Insert env_tok db_ex new_ex ''digest'' = (Some DriverError, created_ex, db_created) \<and>
   Get env0 db_created id_c = Inr created_ex \<and> db_created \<noteq> db_ex"
  using Get_db_ex_missing Insert_token_fails Get_db_created
  by (simp add: db_created_def db_ex_def)

text \<open>
  With no fault at all: a poll without options makes the option statement fail after
  the poll row is written, and the row stays in the store.
\<close>

theorem Insert_failure_keeps_poll_row_witness:
  "Insert env0 db_ex bare_ex ''digest'' =
     (Some (Wrapped ''insert poll options'' DriverError),
      bare_ex\<lparr>ID := id_c, CreatedAt := 50, UpdatedAt := 50\<rparr>, db_bare) \<and>
   list_all (\<lambda>po. po_poll_id po \<in> p_id ` set (polls db_ex)) (poll_options db_ex) \<and>
   gen_poll_id env0 \<noteq> [] \<and> id_syntax env0 (gen_poll_id env0) \<and>
   \<not> fails env0 GetQuery \<and> \<not> fails env0 GetScan \<and>
   polls db_bare = polls db_ex @ [new_poll_row env0 bare_ex] \<and>
   Get env0 db_bare id_c = Inl ErrRecordNotFound"
proof -
  have ok: "gen_poll_id env0 \<noteq> []" "id_syntax env0 (gen_poll_id env0)"
    "\<not> fails env0 GetQuery" "\<not> fails env0 GetScan"
    using ids_distinct uuid_examples by (simp_all add: env0_def)
  have gen: "gen_poll_id env0 = id_c" by (simp add: env0_def)
  have fk: "list_all (\<lambda>po. po_poll_id po \<in> p_id ` set (polls db_ex)) (poll_options db_ex)"
    using db_ex_fk by (simp add: list_all_iff)
  have "Wrapped ''insert poll options'' DriverError \<noteq> Wrapped ''insert poll'' DriverError"
    "Wrapped ''insert poll options'' DriverError \<noteq> Wrapped ''scan option id'' DriverError"
    "Wrapped ''insert poll options'' DriverError \<noteq> DriverError"
    by simp_all
  with Insert_failure_keeps_poll_row [OF Insert_bare db_ex_fk ok]
  have "db_bare = db_ex\<lparr>polls := polls db_ex @ [new_poll_row env0 bare_ex]\<rparr>"
    and "Get env0 db_bare (gen_poll_id env0) = Inl ErrRecordNotFound"
    by blast+
  then have "polls db_bare = polls db_ex @ [new_poll_row env0 bare_ex]"
    and "Get env0 db_bare id_c = Inl ErrRecordNotFound"
    unfolding gen by (simp_all add: db_bare_def)
  with Insert_bare fk ok show ?thesis by (intro conjI)
qed

section \<open>Recording a vote\<close>

lemma RecordVote_None:
  assumes "RecordVote e d p a = (None, d1)"
  shows "[r \<leftarrow> polls d. p_id r = p] \<noteq> [] \<and>
         d1 = d\<lparr>ips := ips d @
                [\<lparr>ip_id = Suc (foldr max (map ip_id (ips d)) 0), ip_ip = a, ip_poll_id = p\<rparr>]\<rparr>"
  using assms unfolding RecordVote_def insert_ips_def
  by (auto split: if_splits)

text \<open>
  C3, what the table does: once \<^verbatim>\<open>RecordVote\<close> has recorded an address for a poll,
  recording the same address fails with \<^verbatim>\<open>Conflict\<close> for every poll identifier, the
  same poll or another one, since the unique constraint of the migration is on
  \<^verbatim>\<open>ip\<close> alone; an address that no row holds is recorded for the same poll.
\<close>

theorem RecordVote_address_unique_across_polls:
  assumes first: "RecordVote e d p1 a = (None, d1)"
    and ok: "id_syntax e' p1" "id_syntax e' p2" "\<not> fails e' RecordVoteExec"
  shows "RecordVote e' d1 p2 a = (Some Conflict, d1) \<and>
         ([r \<leftarrow> ips d1. ip_ip r = b] = [] \<longrightarrow> fst (RecordVote e' d1 p1 b) = None)"
proof -
  from RecordVote_None [OF first] have
    p1: "[r \<leftarrow> polls d. p_id r = p1] \<noteq> []" and
    d1: "d1 = d\<lparr>ips := ips d @
           [\<lparr>ip_id = Suc (foldr max (map ip_id (ips d)) 0), ip_ip = a, ip_poll_id = p1\<rparr>]\<rparr>"
    by blast+
  have "[r \<leftarrow> ips d1. ip_ip r = a] \<noteq> []" unfolding d1 by simp
  then have "RecordVote e' d1 p2 a = (Some Conflict, d1)"
    using ok by (simp add: RecordVote_def insert_ips_def)
  moreover have "fst (RecordVote e' d1 p1 b) = None" if "[r \<leftarrow> ips d1. ip_ip r = b] = []"
  proof -
    have "[r \<leftarrow> polls d1. p_id r = p1] \<noteq> []" using p1 unfolding d1 by simp
    with that ok show ?thesis by (simp add: RecordVote_def insert_ips_def)
  qed
  ultimately show ?thesis by blast
qed

lemma RecordVote_db_ex: "RecordVote env0 db_ex id_a ''203.0.113.7'' = (None, db_voted)"
  using uuid_examples ids_distinct
  by (simp add: RecordVote_def insert_ips_def env0_def db_ex_def db_voted_def)

lemma GetVotedIPs_db_voted: "GetVotedIPs env0 db_voted id_b = Inr []"
  using uuid_examples ids_distinct
  by (simp add: GetVotedIPs_def env0_def db_voted_def)

text \<open>
  The failing input: on the sample store an address votes on the first poll.
  \<^verbatim>\<open>GetVotedIPs\<close> of the second poll does not hold the address, yet recording it for
  the second poll fails with \<^verbatim>\<open>Conflict\<close>, as it does for the first poll; another
  address is recorded for the first poll.
\<close>

theorem RecordVote_address_unique_across_polls_witness:
  "RecordVote env0 db_ex id_a ''203.0.113.7'' = (None, db_voted) \<and>
   id_syntax env0 id_a \<and> id_syntax env0 id_b \<and> \<not> fails env0 RecordVoteExec \<and> id_a \<noteq> id_b \<and>
   [p \<leftarrow> polls db_voted. p_id p = id_b] \<noteq> [] \<and>
   GetVotedIPs env0 db_voted id_b = Inr [] \<and>
   RecordVote env0 db_voted id_b ''203.0.113.7'' = (Some Conflict, db_voted) \<and>
   RecordVote env0 db_voted id_a ''203.0.113.7'' = (Some Conflict, db_voted) \<and>
   [r \<leftarrow> ips db_voted. ip_ip r = ''203.0.113.8''] = [] \<and>
   fst (RecordVote env0 db_voted id_a ''203.0.113.8'') = None"
proof -
  have ok: "id_syntax env0 id_a" "id_syntax env0 id_b" "\<not> fails env0 RecordVoteExec"
    using uuid_examples by (simp_all add: env0_def)
  have stored: "[p \<leftarrow> polls db_voted. p_id p = id_b] \<noteq> []"
    by (simp add: db_voted_def db_ex_def)
  have fresh: "[r \<leftarrow> ips db_voted. ip_ip r = ''203.0.113.8''] = []"
    by (simp add: db_voted_def)
  from RecordVote_address_unique_across_polls [OF RecordVote_db_ex ok(1) ok(2) ok(3)]
  have other: "RecordVote env0 db_voted id_b ''203.0.113.7'' = (Some Conflict, db_voted)"
    by blast
  from RecordVote_address_unique_across_polls
         [OF RecordVote_db_ex ok(1) ok(1) ok(3), of "''203.0.113.8''"] fresh
  have same: "RecordVote env0 db_voted id_a ''203.0.113.7'' = (Some Conflict, db_voted)"
    and diff: "fst (RecordVote env0 db_voted id_a ''203.0.113.8'') = None"
    by blast+
  show ?thesis
    using RecordVote_db_ex ok ids_distinct(1) stored GetVotedIPs_db_voted other same fresh diff
    by (intro conjI)
qed

end
